theory Spec2Isabelle
  imports Complex_Main
begin

section \<open>The relational store\<close>

text \<open>
  The tables are those of \<^verbatim>\<open>backend/src/database/migrate.js\<close>. A table is the list of
  its rows in insertion order. Columns that no modelled query reads or constrains
  (names, e-mail addresses, \<^verbatim>\<open>created_at\<close>, \<^verbatim>\<open>updated_at\<close>,
  \<^verbatim>\<open>face_detected\<close>, the serial \<^verbatim>\<open>id\<close> of a membership or metric row) are left out.
  A \<^verbatim>\<open>TIMESTAMP\<close> is a number of microseconds, a \<^verbatim>\<open>DECIMAL\<close> value is a rational
  number, and a column with a \<^verbatim>\<open>CHECK (... IN ...)\<close> constraint over a fixed vocabulary
  is a datatype. A JSON \<^verbatim>\<open>null\<close> in a request body is not modelled.

  The student column of \<^verbatim>\<open>engagement_metrics\<close> is \<^verbatim>\<open>student_id\<close>, as the migration
  creates it. The statements that name \<^verbatim>\<open>user_id\<close> on this table name a column it does
  not have; the store answers them with \<^verbatim>\<open>undefined_column\<close>.
\<close>

type_synonym timestamp = int

datatype user_role = Teacher | Student | Admin

datatype session_status = Active | Ended | Cancelled

datatype member_role = MemberTeacher | MemberStudent

record user_row =
  u_id :: nat
  u_role :: user_role
  is_active :: bool

record session_row =
  s_id :: nat
  teacher_id :: nat
  title :: string
  description :: string
  start_time :: timestamp
  end_time :: "timestamp option"
  status :: session_status
  max_students :: "int option"

record session_user_row =
  su_session_id :: nat
  su_user_id :: nat
  su_role :: member_role
  joined_at :: timestamp
  left_at :: "timestamp option"

record metric_row =
  em_session_id :: nat
  em_student_id :: nat
  em_timestamp :: timestamp
  emotion :: string
  confidence :: rat
  engagement_score :: rat

record db =
  users :: "user_row list"
  sessions :: "session_row list"
  session_users :: "session_user_row list"
  engagement_metrics :: "metric_row list"

text \<open>
  What a rejected statement raises (the PostgreSQL condition names), and what the routes
  answer: the \<^verbatim>\<open>code\<close> field of the JSON error body, or \<open>Thrown\<close> for an exception
  that leaves a \<^verbatim>\<open>SessionManager\<close> method.
\<close>

datatype pg_error =
    undefined_column
  | not_null_violation
  | numeric_value_out_of_range
  | check_violation
  | foreign_key_violation
  | unique_violation
  | string_data_right_truncation

datatype error =
    Thrown pg_error
  | MISSING_REQUIRED_FIELDS
  | SESSION_CREATION_ERROR
  | INVALID_TIME_RANGE
  | INSUFFICIENT_PERMISSIONS
  | SESSION_NOT_FOUND
  | SESSION_NOT_ACTIVE
  | USER_ALREADY_IN_SESSION
  | SESSION_FULL
  | SESSION_JOIN_ERROR
  | USER_NOT_IN_SESSION
  | UPDATE_PERMISSION_DENIED
  | NO_UPDATE_FIELDS
  | SESSION_UPDATE_ERROR
  | END_PERMISSION_DENIED
  | SESSION_ALREADY_ENDED
  | SESSION_ACCESS_DENIED
  | REPORT_GENERATION_ERROR

section \<open>Metric ingestion\<close>

text \<open>
  The columns of \<^verbatim>\<open>engagement_metrics\<close>, and the resolution of the column names of a
  statement against them: a statement that names any other column is refused with
  \<^verbatim>\<open>undefined_column\<close> before a row is read or written.
\<close>

definition engagement_metrics_columns :: "string list" where
  "engagement_metrics_columns =
     [''id'', ''session_id'', ''student_id'', ''timestamp'', ''emotion'', ''confidence'',
      ''engagement_score'', ''face_detected'', ''created_at'']"

definition resolves :: "string list \<Rightarrow> bool" where
  "resolves names = list_all (\<lambda>n. n \<in> set engagement_metrics_columns) names"

text \<open>
  Assignment to a \<^verbatim>\<open>DECIMAL(p,s)\<close> column rounds to \<open>s\<close> decimals, half away from zero,
  and overflows when the rounded value needs more than \<open>p - s\<close> integer digits. Assignment
  to a \<^verbatim>\<open>VARCHAR(n)\<close> column cuts excess spaces and refuses any other excess.
\<close>

definition round_numeric :: "nat \<Rightarrow> rat \<Rightarrow> rat" where
  "round_numeric s x =
     (if 0 \<le> x then of_int \<lfloor>x * 10 ^ s + 1 / 2\<rfloor> / 10 ^ s
      else - (of_int \<lfloor>- x * 10 ^ s + 1 / 2\<rfloor> / 10 ^ s))"

definition numeric :: "nat \<Rightarrow> nat \<Rightarrow> rat \<Rightarrow> pg_error + rat" where
  "numeric p s x =
     (let r = round_numeric s x
      in if 10 ^ (p - s) \<le> \<bar>r\<bar> then Inl numeric_value_out_of_range else Inr r)"

definition varchar :: "nat \<Rightarrow> string \<Rightarrow> pg_error + string" where
  "varchar n t =
     (if length t \<le> n then Inr t
      else if list_all (\<lambda>c. c = CHR '' '') (drop n t) then Inr (take n t)
      else Inl string_data_right_truncation)"

text \<open>
  \<^verbatim>\<open>INSERT INTO engagement_metrics (names) VALUES (...)\<close>: the names are resolved, the
  values are assigned to their column types, the columns without a default must all be
  named, and the two \<^verbatim>\<open>CHECK\<close> constraints and the two foreign keys are tested. The row
  \<open>m\<close> carries the values of the statement. Lengths count characters; the strings of
  the model are ASCII.
\<close>

definition insert_engagement_metric :: "db \<Rightarrow> string list \<Rightarrow> metric_row \<Rightarrow> pg_error + db" where
  "insert_engagement_metric d names m =
     (if \<not> resolves names then Inl undefined_column
      else case varchar 50 (emotion m) of
        Inl e \<Rightarrow> Inl e
      | Inr emo \<Rightarrow>
          (case numeric 5 4 (confidence m) of
             Inl e \<Rightarrow> Inl e
           | Inr c \<Rightarrow>
               (case numeric 3 2 (engagement_score m) of
                  Inl e \<Rightarrow> Inl e
                | Inr sc \<Rightarrow>
                    if \<not> list_all (\<lambda>n. n \<in> set names)
                             [''session_id'', ''student_id'', ''timestamp'', ''emotion'',
                              ''confidence'', ''engagement_score'']
                      then Inl not_null_violation
                    else if \<not> (0 \<le> c \<and> c \<le> 1) then Inl check_violation
                    else if \<not> (0 \<le> sc \<and> sc \<le> 1) then Inl check_violation
                    else if em_session_id m \<notin> set (map s_id (sessions d))
                      then Inl foreign_key_violation
                    else if em_student_id m \<notin> set (map u_id (users d))
                      then Inl foreign_key_violation
                    else Inr (d\<lparr>engagement_metrics := engagement_metrics d @
                                [m\<lparr>emotion := emo, confidence := c,
                                   engagement_score := sc\<rparr>]\<rparr>))))"

text \<open>
  \<^verbatim>\<open>SessionManager.storeEngagementMetric\<close>: one insert, with the column list of the
  source, stamped with the store's clock; a failure is logged and thrown again.
\<close>

definition storeEngagementMetric ::
  "db \<Rightarrow> timestamp \<Rightarrow> nat \<Rightarrow> nat \<Rightarrow> string \<Rightarrow> rat \<Rightarrow> rat \<Rightarrow> error + db" where
  "storeEngagementMetric d now sessionId studentId emo conf engagementScore =
     (case insert_engagement_metric d
             [''session_id'', ''user_id'', ''emotion'', ''confidence'', ''engagement_score'',
              ''timestamp'']
             \<lparr>em_session_id = sessionId, em_student_id = studentId, em_timestamp = now,
              emotion = emo, confidence = conf, engagement_score = engagementScore\<rparr> of
        Inl e \<Rightarrow> Inl (Thrown e)
      | Inr d' \<Rightarrow> Inr d')"

text \<open>
  The socket handler \<^verbatim>\<open>engagement_update\<close>: the payload is broadcast to the session's
  room, then stored. The handler does not look at the membership table, and it neither
  awaits nor catches the store: \<open>Inl\<close> is a rejection that nothing handles, which on
  the Node.js 18 that the README asks for ends the server process; the store is as it
  was.
\<close>

record engagement_update_data =
  sessionId :: nat
  studentId :: nat
  emotion_of :: string
  confidence_of :: rat
  engagementScore :: rat

definition engagement_update :: "db \<Rightarrow> timestamp \<Rightarrow> engagement_update_data \<Rightarrow> error + db" where
  "engagement_update d now data =
     storeEngagementMetric d now (sessionId data) (studentId data) (emotion_of data)
       (confidence_of data) (engagementScore data)"

section \<open>Aggregates read from the metric log\<close>

text \<open>SQL \<^verbatim>\<open>AVG\<close>, \<^verbatim>\<open>MIN\<close> and \<^verbatim>\<open>MAX\<close> are \<^verbatim>\<open>NULL\<close> over no rows.\<close>

definition sql_avg :: "rat list \<Rightarrow> rat option" where
  "sql_avg xs = (if xs = [] then None else Some (sum_list xs / of_nat (length xs)))"

definition sql_min :: "('a::linorder) list \<Rightarrow> 'a option" where
  "sql_min xs = (case xs of [] \<Rightarrow> None | x # rest \<Rightarrow> Some (fold min rest x))"

definition sql_max :: "('a::linorder) list \<Rightarrow> 'a option" where
  "sql_max xs = (case xs of [] \<Rightarrow> None | x # rest \<Rightarrow> Some (fold max rest x))"

definition session_metrics :: "db \<Rightarrow> nat \<Rightarrow> metric_row list" where
  "session_metrics d sid = filter (\<lambda>m. em_session_id m = sid) (engagement_metrics d)"

text \<open>An integer column of a metric row by its name.\<close>

definition nat_column :: "string \<Rightarrow> metric_row \<Rightarrow> nat option" where
  "nat_column n m =
     (if n = ''session_id'' then Some (em_session_id m)
      else if n = ''student_id'' then Some (em_student_id m)
      else None)"

record engagement_summary =
  total_metrics :: nat
  avg_engagement :: "rat option"
  active_participants :: nat
  session_start :: "timestamp option"
  session_end :: "timestamp option"

text \<open>The statement shared by \<^verbatim>\<open>SessionManager.getSessionEngagementSummary\<close> and the
  \<^verbatim>\<open>overall_stats\<close> query of the session report; it counts
  \<^verbatim>\<open>DISTINCT user_id\<close>.\<close>

definition overall_stats_query :: "db \<Rightarrow> nat \<Rightarrow> pg_error + engagement_summary" where
  "overall_stats_query d sid =
     (if \<not> resolves [''engagement_score'', ''user_id'', ''timestamp'', ''session_id'']
        then Inl undefined_column
      else
        let rows = session_metrics d sid in
        Inr \<lparr>total_metrics = length rows,
             avg_engagement = sql_avg (map engagement_score rows),
             active_participants =
               length (remdups (List.map_filter (nat_column ''user_id'') rows)),
             session_start = sql_min (map em_timestamp rows),
             session_end = sql_max (map em_timestamp rows)\<rparr>)"

text \<open>\<^verbatim>\<open>SessionManager.getSessionEngagementSummary\<close>: a failure is logged and thrown
  again.\<close>

definition getSessionEngagementSummary :: "db \<Rightarrow> nat \<Rightarrow> error + engagement_summary" where
  "getSessionEngagementSummary d sid =
     (case overall_stats_query d sid of Inl e \<Rightarrow> Inl (Thrown e) | Inr r \<Rightarrow> Inr r)"

text \<open>\<^verbatim>\<open>DATE_TRUNC('minute', timestamp)\<close> on microseconds.\<close>

definition date_trunc_minute :: "timestamp \<Rightarrow> timestamp" where
  "date_trunc_minute t = t - t mod 60000000"

record time_bucket_row =
  time_bucket :: timestamp
  bucket_avg_engagement :: "rat option"
  metric_count :: nat

text \<open>The \<^verbatim>\<open>time_data\<close> statement of the session report: the session's metrics
  grouped by minute, one row per group, ordered by the bucket. It names existing columns
  only.\<close>

definition time_data :: "db \<Rightarrow> nat \<Rightarrow> time_bucket_row list" where
  "time_data d sid =
     (let rows = session_metrics d sid in
      map (\<lambda>k. let grp = filter (\<lambda>m. date_trunc_minute (em_timestamp m) = k) rows in
                \<lparr>time_bucket = k,
                 bucket_avg_engagement = sql_avg (map engagement_score grp),
                 metric_count = length grp\<rparr>)
          (sort (remdups (map (\<lambda>m. date_trunc_minute (em_timestamp m)) rows))))"

section \<open>Session routes\<close>

text \<open>
  \<open>req_user\<close> is \<^verbatim>\<open>req.user\<close> as \<^verbatim>\<open>authenticateToken\<close> leaves it. Session ids arrive
  as numbers and times as parsed timestamps. \<^verbatim>\<open>CURRENT_TIMESTAMP\<close> is the argument
  \<open>now\<close>. Each route is one request served alone.
\<close>

record req_user =
  ru_id :: nat
  ru_role :: user_role

definition requireRole :: "user_role list \<Rightarrow> req_user \<Rightarrow> bool" where
  "requireRole roles user = (ru_role user \<in> set roles)"

text \<open>JavaScript \<^verbatim>\<open>count >= max_students\<close>, where a \<^verbatim>\<open>NULL\<close> column converts to 0.\<close>

definition js_ge :: "int \<Rightarrow> int option \<Rightarrow> bool" where
  "js_ge n m = (case m of None \<Rightarrow> 0 \<le> n | Some k \<Rightarrow> k \<le> n)"

definition membership_rows :: "db \<Rightarrow> nat \<Rightarrow> nat \<Rightarrow> session_user_row list" where
  "membership_rows d sid uid =
     filter (\<lambda>r. su_session_id r = sid \<and> su_user_id r = uid) (session_users d)"

text \<open>\<^verbatim>\<open>SELECT COUNT(*) FROM session_users WHERE session_id = $1\<close>.\<close>

definition participant_count :: "db \<Rightarrow> nat \<Rightarrow> nat" where
  "participant_count d sid = length (filter (\<lambda>r. su_session_id r = sid) (session_users d))"

text \<open>The active participant count of the claims, written from the specification's words:
  a user with a non-null \<^verbatim>\<open>left_at\<close> is not counted as active.\<close>

definition active_participant_count :: "db \<Rightarrow> nat \<Rightarrow> nat" where
  "active_participant_count d sid =
     length (filter (\<lambda>r. su_session_id r = sid \<and> left_at r = None) (session_users d))"

text \<open>\<^verbatim>\<open>INSERT INTO session_users\<close> under \<^verbatim>\<open>CHECK (role IN ('teacher', 'student'))\<close>,
  \<^verbatim>\<open>UNIQUE(session_id, user_id)\<close> and the two foreign keys.\<close>

definition insert_session_user ::
  "db \<Rightarrow> nat \<Rightarrow> nat \<Rightarrow> timestamp \<Rightarrow> user_role \<Rightarrow> pg_error + db" where
  "insert_session_user d sid uid now r =
     (case (case r of Teacher \<Rightarrow> Some MemberTeacher | Student \<Rightarrow> Some MemberStudent
                    | Admin \<Rightarrow> None) of
        None \<Rightarrow> Inl check_violation
      | Some mr \<Rightarrow>
          if membership_rows d sid uid \<noteq> [] then Inl unique_violation
          else if sid \<notin> set (map s_id (sessions d)) then Inl foreign_key_violation
          else if uid \<notin> set (map u_id (users d)) then Inl foreign_key_violation
          else Inr (d\<lparr>session_users := session_users d @
                      [\<lparr>su_session_id = sid, su_user_id = uid, su_role = mr,
                        joined_at = now, left_at = None\<rparr>]\<rparr>))"

text \<open>\<^verbatim>\<open>POST /\<close>: create a session. The two inserts are separate statements, so the
  store is returned beside the answer. \<open>None\<close> is a field absent from the body. The
  times are compared as JavaScript dates, in milliseconds; the title is assigned to
  \<^verbatim>\<open>VARCHAR(255)\<close> and \<^verbatim>\<open>max_students\<close> to \<^verbatim>\<open>INTEGER\<close>. The optional \<^verbatim>\<open>settings\<close>
  object, here and in the update route, is written to \<^verbatim>\<open>session_analytics\<close> only and
  is left out.\<close>

record create_body =
  cb_title :: "string option"
  cb_description :: "string option"
  cb_max_students :: "int option"
  cb_start_time :: "timestamp option"
  cb_end_time :: "timestamp option"

definition int4 :: "int \<Rightarrow> bool" where
  "int4 k = (- 2147483648 \<le> k \<and> k \<le> 2147483647)"

definition next_session_id :: "db \<Rightarrow> nat" where
  "next_session_id d = Suc (fold max (map s_id (sessions d)) 0)"

definition create_session ::
  "db \<Rightarrow> timestamp \<Rightarrow> req_user \<Rightarrow> create_body \<Rightarrow> db \<times> (error + session_row)" where
  "create_session d now user body =
     (if \<not> requireRole [Teacher, Admin] user then (d, Inl INSUFFICIENT_PERMISSIONS)
      else case (cb_title body, cb_start_time body, cb_end_time body) of
        (Some t, Some st, Some et) \<Rightarrow>
          if t = [] then (d, Inl MISSING_REQUIRED_FIELDS)
          else if et div 1000 \<le> st div 1000 then (d, Inl INVALID_TIME_RANGE)
          else
            (case varchar 255 t of
               Inl e \<Rightarrow> (d, Inl SESSION_CREATION_ERROR)
             | Inr t' \<Rightarrow>
                 let m = (case cb_max_students body of None \<Rightarrow> 50
                          | Some k \<Rightarrow> if k = 0 then 50 else k)
                 in if \<not> int4 m then (d, Inl SESSION_CREATION_ERROR)
                    else if ru_id user \<notin> set (map u_id (users d))
                      then (d, Inl SESSION_CREATION_ERROR)
                    else
                      let session =
                            \<lparr>s_id = next_session_id d, teacher_id = ru_id user, title = t',
                             description = (case cb_description body of None \<Rightarrow> []
                                            | Some x \<Rightarrow> x),
                             start_time = st, end_time = Some et, status = Active,
                             max_students = Some m\<rparr>;
                          d1 = d\<lparr>sessions := sessions d @ [session]\<rparr>
                      in (case insert_session_user d1 (s_id session) (ru_id user) now Teacher of
                            Inl e \<Rightarrow> (d1, Inl SESSION_CREATION_ERROR)
                          | Inr d2 \<Rightarrow> (d2, Inr session)))
      | _ \<Rightarrow> (d, Inl MISSING_REQUIRED_FIELDS))"

text \<open>\<^verbatim>\<open>POST /:id/join\<close>, the route registered first: the one that answers.\<close>

definition join_session :: "db \<Rightarrow> timestamp \<Rightarrow> req_user \<Rightarrow> nat \<Rightarrow> error + db" where
  "join_session d now user sid =
     (case filter (\<lambda>s. s_id s = sid \<and> status s = Active) (sessions d) of
        [] \<Rightarrow> Inl SESSION_NOT_FOUND
      | session # _ \<Rightarrow>
          if membership_rows d sid (ru_id user) \<noteq> [] then Inl USER_ALREADY_IN_SESSION
          else if js_ge (int (participant_count d sid)) (max_students session)
            then Inl SESSION_FULL
          else (case insert_session_user d sid (ru_id user) now (ru_role user) of
                  Inl e \<Rightarrow> Inl SESSION_JOIN_ERROR
                | Inr d' \<Rightarrow> Inr d'))"

text \<open>\<^verbatim>\<open>POST /:id/join\<close>, the route registered second, after \<^verbatim>\<open>POST /:id/end\<close>.\<close>

definition join_session_second :: "db \<Rightarrow> timestamp \<Rightarrow> req_user \<Rightarrow> nat \<Rightarrow> error + db" where
  "join_session_second d now user sid =
     (case filter (\<lambda>s. s_id s = sid) (sessions d) of
        [] \<Rightarrow> Inl SESSION_NOT_FOUND
      | session # _ \<Rightarrow>
          if status session \<noteq> Active then Inl SESSION_NOT_ACTIVE
          else if membership_rows d sid (ru_id user) \<noteq> [] then Inl USER_ALREADY_IN_SESSION
          else if js_ge (int (participant_count d sid)) (max_students session)
            then Inl SESSION_FULL
          else (case insert_session_user d sid (ru_id user) now (ru_role user) of
                  Inl e \<Rightarrow> Inl SESSION_JOIN_ERROR
                | Inr d' \<Rightarrow> Inr d'))"

text \<open>\<^verbatim>\<open>POST /:id/leave\<close>: the row is kept and stamped.\<close>

definition leave_session :: "db \<Rightarrow> timestamp \<Rightarrow> req_user \<Rightarrow> nat \<Rightarrow> error + db" where
  "leave_session d now user sid =
     (if membership_rows d sid (ru_id user) = [] then Inl USER_NOT_IN_SESSION
      else Inr (d\<lparr>session_users :=
                  map (\<lambda>r. if su_session_id r = sid \<and> su_user_id r = ru_id user
                            then r\<lparr>left_at := Some now\<rparr> else r)
                      (session_users d)\<rparr>))"


text \<open>\<^verbatim>\<open>POST /:id/end\<close>.\<close>

definition end_session :: "db \<Rightarrow> timestamp \<Rightarrow> req_user \<Rightarrow> nat \<Rightarrow> error + db" where
  "end_session d now user sid =
     (if \<not> requireRole [Teacher, Admin] user then Inl INSUFFICIENT_PERMISSIONS
      else case filter (\<lambda>s. s_id s = sid) (sessions d) of
        [] \<Rightarrow> Inl SESSION_NOT_FOUND
      | session # _ \<Rightarrow>
          if teacher_id session \<noteq> ru_id user then Inl END_PERMISSION_DENIED
          else if status session = Ended then Inl SESSION_ALREADY_ENDED
          else Inr (d\<lparr>sessions :=
                      map (\<lambda>s. if s_id s = sid then s\<lparr>status := Ended, end_time := Some now\<rparr>
                                else s)
                          (sessions d)\<rparr>))"

text \<open>\<^verbatim>\<open>SessionManager.endSession\<close>: only \<^verbatim>\<open>end_time\<close> is written.\<close>

definition endSession :: "db \<Rightarrow> timestamp \<Rightarrow> nat \<Rightarrow> db" where
  "endSession d now sid =
     d\<lparr>sessions := map (\<lambda>s. if s_id s = sid then s\<lparr>end_time := Some now\<rparr> else s)
                         (sessions d)\<rparr>"

text \<open>\<^verbatim>\<open>PUT /:id\<close>: every field present in the body is written as it is given, under
  the column types; the \<^verbatim>\<open>status\<close> text goes through the column's \<^verbatim>\<open>CHECK\<close>. A
  statement that is refused is answered \<^verbatim>\<open>SESSION_UPDATE_ERROR\<close>.\<close>

record update_body =
  ub_title :: "string option"
  ub_description :: "string option"
  ub_max_students :: "int option"
  ub_start_time :: "timestamp option"
  ub_end_time :: "timestamp option"
  ub_status :: "string option"

definition status_of_text :: "string \<Rightarrow> session_status option" where
  "status_of_text t =
     (if t = ''active'' then Some Active
      else if t = ''ended'' then Some Ended
      else if t = ''cancelled'' then Some Cancelled
      else None)"

definition update_refused :: "update_body \<Rightarrow> bool" where
  "update_refused body =
     ((case ub_title body of None \<Rightarrow> False
       | Some t \<Rightarrow> (case varchar 255 t of Inl e \<Rightarrow> True | Inr t' \<Rightarrow> False))
      \<or> (case ub_max_students body of None \<Rightarrow> False | Some k \<Rightarrow> \<not> int4 k)
      \<or> (case ub_status body of None \<Rightarrow> False | Some t \<Rightarrow> status_of_text t = None))"

definition apply_update :: "update_body \<Rightarrow> session_row \<Rightarrow> session_row" where
  "apply_update body s =
     s\<lparr>title := (case ub_title body of None \<Rightarrow> title s
                 | Some x \<Rightarrow> (case varchar 255 x of Inl e \<Rightarrow> title s | Inr t' \<Rightarrow> t')),
       description := (case ub_description body of None \<Rightarrow> description s | Some x \<Rightarrow> x),
       max_students := (case ub_max_students body of None \<Rightarrow> max_students s | Some k \<Rightarrow> Some k),
       start_time := (case ub_start_time body of None \<Rightarrow> start_time s | Some x \<Rightarrow> x),
       end_time := (case ub_end_time body of None \<Rightarrow> end_time s | Some x \<Rightarrow> Some x),
       status := (case ub_status body of None \<Rightarrow> status s
                  | Some t \<Rightarrow> (case status_of_text t of None \<Rightarrow> status s | Some x \<Rightarrow> x))\<rparr>"

definition update_session :: "db \<Rightarrow> req_user \<Rightarrow> nat \<Rightarrow> update_body \<Rightarrow> error + db" where
  "update_session d user sid body =
     (if \<not> requireRole [Teacher, Admin] user then Inl INSUFFICIENT_PERMISSIONS
      else case filter (\<lambda>s. s_id s = sid) (sessions d) of
        [] \<Rightarrow> Inl SESSION_NOT_FOUND
      | session # _ \<Rightarrow>
          if teacher_id session \<noteq> ru_id user then Inl UPDATE_PERMISSION_DENIED
          else if ub_title body = None \<and> ub_description body = None
                  \<and> ub_max_students body = None \<and> ub_start_time body = None
                  \<and> ub_end_time body = None \<and> ub_status body = None
            then Inl NO_UPDATE_FIELDS
          else if update_refused body then Inl SESSION_UPDATE_ERROR
          else Inr (d\<lparr>sessions := map (\<lambda>s. if s_id s = sid then apply_update body s else s)
                                       (sessions d)\<rparr>))"

section \<open>Session report\<close>

record user_summary_row =
  us_user_id :: "nat option"
  us_total_metrics :: nat
  us_avg_engagement :: "rat option"
  us_min_engagement :: "rat option"
  us_max_engagement :: "rat option"
  happy_count :: nat
  sad_count :: nat
  neutral_count :: nat
  angry_count :: nat
  surprised_count :: nat

definition count_emotion :: "string \<Rightarrow> metric_row list \<Rightarrow> nat" where
  "count_emotion e rows = length (filter (\<lambda>m. emotion m = e) rows)"

text \<open>The \<^verbatim>\<open>engagement_summary\<close> statement: it groups the session's metrics
  \<^verbatim>\<open>BY user_id\<close>. SQL leaves the order of the groups open; the model lists them by
  first metric.\<close>

definition engagement_summary_query :: "db \<Rightarrow> nat \<Rightarrow> pg_error + user_summary_row list" where
  "engagement_summary_query d sid =
     (if \<not> resolves [''user_id'', ''engagement_score'', ''emotion'', ''session_id'']
        then Inl undefined_column
      else
        let rows = session_metrics d sid in
        Inr (map (\<lambda>u. let grp = filter (\<lambda>m. nat_column ''user_id'' m = u) rows in
                       \<lparr>us_user_id = u,
                        us_total_metrics = length grp,
                        us_avg_engagement = sql_avg (map engagement_score grp),
                        us_min_engagement = sql_min (map engagement_score grp),
                        us_max_engagement = sql_max (map engagement_score grp),
                        happy_count = count_emotion ''happy'' grp,
                        sad_count = count_emotion ''sad'' grp,
                        neutral_count = count_emotion ''neutral'' grp,
                        angry_count = count_emotion ''angry'' grp,
                        surprised_count = count_emotion ''surprised'' grp\<rparr>)
                 (rev (remdups (rev (map (nat_column ''user_id'') rows))))))"

record session_report =
  report_session :: session_row
  participants :: "(user_row \<times> session_user_row) list"
  engagement_summary_rows :: "user_summary_row list"
  report_time_data :: "time_bucket_row list"
  overall_stats :: engagement_summary

text \<open>\<^verbatim>\<open>GET /session/:sessionId\<close> of the report routes: the membership gate comes first,
  the session lookup second, then the statements in the order of the source; a statement
  that fails is caught and answered \<^verbatim>\<open>REPORT_GENERATION_ERROR\<close>.\<close>

definition session_report :: "db \<Rightarrow> req_user \<Rightarrow> nat \<Rightarrow> error + session_report" where
  "session_report d user sid =
     (if membership_rows d sid (ru_id user) = [] then Inl SESSION_ACCESS_DENIED
      else case filter (\<lambda>s. s_id s = sid) (sessions d) of
        [] \<Rightarrow> Inl SESSION_NOT_FOUND
      | session # _ \<Rightarrow>
          (case engagement_summary_query d sid of
             Inl e \<Rightarrow> Inl REPORT_GENERATION_ERROR
           | Inr es \<Rightarrow>
               (case overall_stats_query d sid of
                  Inl e \<Rightarrow> Inl REPORT_GENERATION_ERROR
                | Inr os \<Rightarrow>
                    Inr \<lparr>report_session = session,
                         participants =
                           sort_key (\<lambda>p. joined_at (snd p))
                             (concat (map (\<lambda>r. map (\<lambda>u. (u, r))
                                               (filter (\<lambda>u. u_id u = su_user_id r) (users d)))
                                          (filter (\<lambda>r. su_session_id r = sid)
                                             (session_users d)))),
                         engagement_summary_rows = es,
                         report_time_data = time_data d sid,
                         overall_stats = os\<rparr>)))"


section \<open>Class overview and alerts\<close>

record emotion_distribution =
  attentive :: nat
  confused :: nat
  bored :: nat
  neutral :: nat
  happy :: nat

definition confusion_alert :: string where
  "confusion_alert = ''High confusion detected. Consider slowing down or providing examples.''"

definition boredom_alert :: string where
  "boredom_alert = ''Students seem disengaged. Try an interactive activity or poll.''"

definition low_engagement_alert :: string where
  "low_engagement_alert = ''Overall engagement is low. Consider changing the topic or format.''"

text \<open>JavaScript \<^verbatim>\<open>avg_engagement < 60\<close>: a \<^verbatim>\<open>NULL\<close> average converts to 0.\<close>

definition js_lt :: "rat option \<Rightarrow> rat \<Rightarrow> bool" where
  "js_lt a b = (case a of None \<Rightarrow> 0 < b | Some x \<Rightarrow> x < b)"

definition generate_alerts :: "emotion_distribution \<Rightarrow> rat option \<Rightarrow> string list" where
  "generate_alerts dis avg =
     (if 20 < confused dis then [confusion_alert] else []) @
     (if 30 < bored dis then [boredom_alert] else []) @
     (if js_lt avg 60 then [low_engagement_alert] else [])"

definition five_minutes :: int where
  "five_minutes = 300000000"

text \<open>The metrics of sessions with no \<^verbatim>\<open>end_time\<close>, stamped within the last five
  minutes: the \<^verbatim>\<open>FROM ... JOIN ... WHERE\<close> shared by three of the four queries.\<close>

definition recent_metrics :: "db \<Rightarrow> timestamp \<Rightarrow> metric_row list" where
  "recent_metrics d now =
     concat (map (\<lambda>m. map (\<lambda>s. m)
                        (filter (\<lambda>s. s_id s = em_session_id m \<and> end_time s = None) (sessions d)))
                 (filter (\<lambda>m. now - five_minutes < em_timestamp m) (engagement_metrics d)))"

definition total_students :: "db \<Rightarrow> nat" where
  "total_students d =
     length (remdups (concat (map (\<lambda>r. map (\<lambda>s. su_user_id r)
                (filter (\<lambda>s. s_id s = su_session_id r \<and> end_time s = None
                              \<and> su_user_id r \<noteq> teacher_id s) (sessions d)))
              (session_users d))))"

record class_overview =
  totalStudents :: nat
  onlineStudents :: nat
  averageEngagement :: int
  emotionDistribution :: emotion_distribution
  alerts :: "string list"

text \<open>\<^verbatim>\<open>GET /api/metrics/class-overview\<close>.\<close>

definition class_overview :: "db \<Rightarrow> timestamp \<Rightarrow> req_user \<Rightarrow> error + class_overview" where
  "class_overview d now user =
     (if \<not> requireRole [Teacher, Admin] user then Inl INSUFFICIENT_PERMISSIONS
      else
        let rows = recent_metrics d now;
            avg = sql_avg (map engagement_score rows);
            dis = \<lparr>attentive = count_emotion ''attentive'' rows,
                    confused = count_emotion ''confused'' rows,
                    bored = count_emotion ''bored'' rows,
                    neutral = count_emotion ''neutral'' rows,
                    happy = count_emotion ''happy'' rows\<rparr>
        in Inr \<lparr>totalStudents = total_students d,
                onlineStudents = length (remdups (map em_student_id rows)),
                averageEngagement = (case avg of None \<Rightarrow> 0 | Some a \<Rightarrow> \<lfloor>a + 1 / 2\<rfloor>),
                emotionDistribution = dis,
                alerts = generate_alerts dis avg\<rparr>)"

section \<open>Concrete stores\<close>

text \<open>One teacher, three students and the session \<open>algebra\<close> with room for three
  members. \<open>db_created\<close> is the store after the teacher created the session,
  \<open>db_joined\<close> after students 2 and 3 joined, \<open>db_left\<close> after student 2 left.\<close>

definition teacher_user :: req_user where
  "teacher_user = \<lparr>ru_id = 1, ru_role = Teacher\<rparr>"

definition student_a :: req_user where
  "student_a = \<lparr>ru_id = 2, ru_role = Student\<rparr>"

definition student_b :: req_user where
  "student_b = \<lparr>ru_id = 3, ru_role = Student\<rparr>"

definition student_c :: req_user where
  "student_c = \<lparr>ru_id = 4, ru_role = Student\<rparr>"

definition users0 :: "user_row list" where
  "users0 = [\<lparr>u_id = 1, u_role = Teacher, is_active = True\<rparr>,
             \<lparr>u_id = 2, u_role = Student, is_active = True\<rparr>,
             \<lparr>u_id = 3, u_role = Student, is_active = True\<rparr>,
             \<lparr>u_id = 4, u_role = Student, is_active = True\<rparr>]"

definition algebra_body :: create_body where
  "algebra_body = \<lparr>cb_title = Some ''Algebra'', cb_description = None,
                   cb_max_students = Some 3, cb_start_time = Some 0,
                   cb_end_time = Some 3600000000\<rparr>"

definition algebra :: session_row where
  "algebra = \<lparr>s_id = 1, teacher_id = 1, title = ''Algebra'', description = [],
              start_time = 0, end_time = Some 3600000000, status = Active,
              max_students = Some 3\<rparr>"

definition member ::
  "nat \<Rightarrow> member_role \<Rightarrow> timestamp \<Rightarrow> timestamp option \<Rightarrow> session_user_row" where
  "member uid r t l =
     \<lparr>su_session_id = 1, su_user_id = uid, su_role = r, joined_at = t, left_at = l\<rparr>"

definition db_empty :: db where
  "db_empty = \<lparr>users = users0, sessions = [], session_users = [], engagement_metrics = []\<rparr>"

definition db_created :: db where
  "db_created = \<lparr>users = users0, sessions = [algebra],
                 session_users = [member 1 MemberTeacher 100 None],
                 engagement_metrics = []\<rparr>"

definition db_joined :: db where
  "db_joined = \<lparr>users = users0, sessions = [algebra],
                session_users = [member 1 MemberTeacher 100 None,
                                 member 2 MemberStudent 200 None,
                                 member 3 MemberStudent 300 None],
                engagement_metrics = []\<rparr>"

definition db_left :: db where
  "db_left = \<lparr>users = users0, sessions = [algebra],
              session_users = [member 1 MemberTeacher 100 None,
                               member 2 MemberStudent 200 (Some 400),
                               member 3 MemberStudent 300 None],
              engagement_metrics = []\<rparr>"

definition update_of :: "rat \<Rightarrow> rat \<Rightarrow> engagement_update_data" where
  "update_of c s = \<lparr>sessionId = 1, studentId = 2, emotion_of = ''happy'',
                    confidence_of = c, engagementScore = s\<rparr>"

text \<open>\<open>db_metrics\<close>: the store \<open>db_joined\<close> with three metric rows of the session in
  the table, two in its first minute and one in its second.\<close>

definition metric_at :: "nat \<Rightarrow> timestamp \<Rightarrow> string \<Rightarrow> rat \<Rightarrow> metric_row" where
  "metric_at uid t e s = \<lparr>em_session_id = 1, em_student_id = uid, em_timestamp = t, emotion = e,
                          confidence = 9/10, engagement_score = s\<rparr>"

definition db_metrics :: db where
  "db_metrics = db_joined\<lparr>engagement_metrics :=
      [metric_at 2 10000000 ''happy'' (4/5), metric_at 3 50000000 ''neutral'' (3/5),
       metric_at 2 70000000 ''happy'' 1]\<rparr>"

text \<open>\<open>table_columns\<close>: a column list for an insert that names the table's own
  columns.\<close>

definition table_columns :: "string list" where
  "table_columns = [''session_id'', ''student_id'', ''emotion'', ''confidence'',
                    ''engagement_score'', ''timestamp'']"

text \<open>\<open>db_cancelled\<close> and \<open>db_ended\<close>: the store \<open>db_joined\<close> with the session
  cancelled, and ended at time 900. \<open>reopen_body\<close> is an update that only sets the status
  text \<^verbatim>\<open>active\<close>.\<close>

definition db_cancelled :: db where
  "db_cancelled = db_joined\<lparr>sessions := [algebra\<lparr>status := Cancelled\<rparr>]\<rparr>"

definition db_ended :: db where
  "db_ended = db_joined\<lparr>sessions := [algebra\<lparr>status := Ended, end_time := Some 900\<rparr>]\<rparr>"

definition reopen_body :: update_body where
  "reopen_body = \<lparr>ub_title = None, ub_description = None, ub_max_students = None,
                  ub_start_time = None, ub_end_time = None, ub_status = Some ''active''\<rparr>"

text \<open>The operations that act on a running session, as one step on the store: a
  request that is refused, or a metric whose insert is rejected, leaves the store as it
  was.\<close>

datatype operation =
    Join req_user nat
  | Leave req_user nat
  | End req_user nat
  | Metric engagement_update_data

definition keep :: "db \<Rightarrow> error + db \<Rightarrow> db" where
  "keep d r = (case r of Inl e \<Rightarrow> d | Inr d' \<Rightarrow> d')"

fun step :: "db \<Rightarrow> timestamp \<Rightarrow> operation \<Rightarrow> db" where
  "step d now (Join user sid) = keep d (join_session d now user sid)"
| "step d now (Leave user sid) = keep d (leave_session d now user sid)"
| "step d now (End user sid) = keep d (end_session d now user sid)"
| "step d now (Metric data) = keep d (engagement_update d now data)"

text \<open>A class of ten students in one running session with no \<^verbatim>\<open>end_time\<close>, and three
  metric logs of the last five minutes before time 1000000000: ten students of whom three
  report confused, ten students of whom one reports confused, and one student reporting
  confused 21 times.\<close>

definition class_session :: session_row where
  "class_session = \<lparr>s_id = 1, teacher_id = 1, title = ''Geometry'', description = [],
                    start_time = 0, end_time = None, status = Active, max_students = Some 50\<rparr>"

definition class_students :: "nat list" where
  "class_students = [2, 3, 4, 5, 6, 7, 8, 9, 10, 11]"

definition class_metric :: "string \<Rightarrow> nat \<Rightarrow> metric_row" where
  "class_metric e uid = \<lparr>em_session_id = 1, em_student_id = uid, em_timestamp = 900000000,
                         emotion = e, confidence = 9/10, engagement_score = 7/10\<rparr>"

definition db_class :: "metric_row list \<Rightarrow> db" where
  "db_class ms =
     \<lparr>users = \<lparr>u_id = 1, u_role = Teacher, is_active = True\<rparr>
               # map (\<lambda>i. \<lparr>u_id = i, u_role = Student, is_active = True\<rparr>) class_students,
      sessions = [class_session],
      session_users = member 1 MemberTeacher 100 None
                      # map (\<lambda>i. member i MemberStudent 200 None) class_students,
      engagement_metrics = ms\<rparr>"

definition three_confused :: "metric_row list" where
  "three_confused = map (class_metric ''confused'') [2, 3, 4]
                    @ map (class_metric ''attentive'') [5, 6, 7, 8, 9, 10, 11]"

definition one_confused :: "metric_row list" where
  "one_confused = map (class_metric ''confused'') [2]
                  @ map (class_metric ''attentive'') [3, 4, 5, 6, 7, 8, 9, 10, 11]"

definition one_student_confused :: "metric_row list" where
  "one_student_confused = replicate 21 (class_metric ''confused'' 2)"

section \<open>The concrete stores are reached by the routes\<close>

lemma db_created_reached:
  "create_session db_empty 100 teacher_user algebra_body = (db_created, Inr algebra)"
  by (simp add: create_session_def db_empty_def db_created_def algebra_def algebra_body_def
      teacher_user_def requireRole_def users0_def next_session_id_def insert_session_user_def
      membership_rows_def member_def varchar_def int4_def Let_def)

lemma db_joined_reached:
  "(case join_session db_created 200 student_a 1 of
      Inl e \<Rightarrow> Inl e
    | Inr d1 \<Rightarrow> join_session d1 300 student_b 1) = Inr db_joined"
  by (simp add: join_session_def db_created_def db_joined_def algebra_def student_a_def
      student_b_def js_ge_def participant_count_def users0_def insert_session_user_def
      membership_rows_def member_def)

lemma db_left_reached: "leave_session db_joined 400 student_a 1 = Inr db_left"
  by (simp add: leave_session_def db_joined_def db_left_def student_a_def membership_rows_def
      member_def)

section \<open>The statements that name \<^verbatim>\<open>user_id\<close>\<close>

text \<open>
  \<^verbatim>\<open>user_id\<close> is not a column of \<^verbatim>\<open>engagement_metrics\<close>. The insert of the store
  method and the two aggregate statements name it, so each of them is refused for every
  store and every argument.
\<close>

lemma user_id_undefined: "\<not> resolves (''user_id'' # names)" "\<not> resolves (n # ''user_id'' # names)"
  by (simp_all add: resolves_def engagement_metrics_columns_def)

lemma storeEngagementMetric_throws:
  "storeEngagementMetric d now sid uid emo c s = Inl (Thrown undefined_column)"
  by (simp add: storeEngagementMetric_def insert_engagement_metric_def user_id_undefined)

lemma overall_stats_query_fails: "overall_stats_query d sid = Inl undefined_column"
  by (simp add: overall_stats_query_def user_id_undefined)

lemma engagement_summary_query_fails: "engagement_summary_query d sid = Inl undefined_column"
  by (simp add: engagement_summary_query_def user_id_undefined)

lemma getSessionEngagementSummary_throws:
  "getSessionEngagementSummary d sid = Inl (Thrown undefined_column)"
  by (simp add: getSessionEngagementSummary_def overall_stats_query_fails)

text \<open>
  What the table does with a statement that names its own columns: the bounds of the two
  \<^verbatim>\<open>CHECK\<close> constraints are tested on the rounded values, a score of 80 does not fit
  \<^verbatim>\<open>DECIMAL(3,2)\<close>, and a row within the bounds is stored.
\<close>

lemma table_columns_insert:
  "insert_engagement_metric db_joined table_columns (metric_at 2 500 ''happy'' (4/5))
     = Inr (db_joined\<lparr>engagement_metrics := [metric_at 2 500 ''happy'' (4/5)]\<rparr>)"
  "insert_engagement_metric db_joined table_columns (metric_at 2 500 ''happy'' 80)
     = Inl numeric_value_out_of_range"
  "insert_engagement_metric db_joined table_columns (metric_at 2 500 ''happy'' (3/2))
     = Inl check_violation"
  "insert_engagement_metric db_joined table_columns (metric_at 2 500 ''happy'' (1004/1000))
     = Inr (db_joined\<lparr>engagement_metrics := [metric_at 2 500 ''happy'' 1]\<rparr>)"
  by code_simp+

section \<open>Rejected events\<close>

text \<open>
  C5 asks that a submitted event whose confidence or engagement score is out of bounds,
  such as confidence 1.5, be rejected with a validation error, not be recorded, and leave
  the aggregates unchanged. The code departs from it in the error: at confidence 1.5 the
  store method throws \<^verbatim>\<open>undefined_column\<close>, the same error that an event within the
  bounds receives, because its insert names \<^verbatim>\<open>user_id\<close>; the bounds are never tested.
  Nothing is recorded.
\<close>

theorem out_of_bounds_event_undefined_column:
  "storeEngagementMetric db_joined 500 1 2 ''happy'' (3/2) (4/5) = Inl (Thrown undefined_column)
   \<and> storeEngagementMetric db_joined 500 1 2 ''happy'' (9/10) (4/5)
       = Inl (Thrown undefined_column)
   \<and> engagement_update db_joined 500 (update_of (3/2) (4/5)) = Inl (Thrown undefined_column)"
  by (simp add: storeEngagementMetric_throws engagement_update_def)

section \<open>Average engagement\<close>

text \<open>
  C2 asks that the reported average engagement of a session be the arithmetic mean of the
  accepted engagement scores, 80 after the scores 80, 60 and 100. The code departs from
  it: none of the three events is accepted, on this scale or on the scale 0 to 1, since
  the insert of the store method names \<^verbatim>\<open>user_id\<close>; and the summary method throws
  instead of reporting an average, since its statement names \<^verbatim>\<open>user_id\<close> too.
\<close>

theorem scores_80_60_100_not_averaged:
  "storeEngagementMetric db_joined 500 1 2 ''happy'' (9/10) 80 = Inl (Thrown undefined_column)
   \<and> storeEngagementMetric db_joined 501 1 2 ''happy'' (9/10) 60 = Inl (Thrown undefined_column)
   \<and> storeEngagementMetric db_joined 502 1 2 ''happy'' (9/10) 100 = Inl (Thrown undefined_column)
   \<and> storeEngagementMetric db_joined 500 1 2 ''happy'' (9/10) (4/5)
       = Inl (Thrown undefined_column)
   \<and> getSessionEngagementSummary db_joined 1 = Inl (Thrown undefined_column)"
  by (simp add: storeEngagementMetric_throws getSessionEngagementSummary_throws)

section \<open>Time buckets\<close>

text \<open>
  The \<^verbatim>\<open>time_data\<close> statement taken alone: its rows are keyed by the timestamps of the
  session's metric rows floored to the minute, and their counts add up to the number of
  metric rows of that session in the table.
\<close>

lemma filter_group_sum:
  fixes f :: "'a \<Rightarrow> 'b"
  assumes "finite K" "f ` set xs \<subseteq> K"
  shows "(\<Sum>k\<in>K. length (filter (\<lambda>r. f r = k) xs)) = length xs"
  using assms(2)
proof (induction xs)
  case Nil
  then show ?case by simp
next
  case (Cons x xs)
  have fx: "f x \<in> K" using Cons.prems by simp
  have "(\<Sum>k\<in>K. length (filter (\<lambda>r. f r = k) (x # xs)))
      = (\<Sum>k\<in>K. (if f x = k then 1 else 0) + length (filter (\<lambda>r. f r = k) xs))"
    by (rule sum.cong) auto
  also have "\<dots> = (\<Sum>k\<in>K. (if f x = k then 1 else 0))
                   + (\<Sum>k\<in>K. length (filter (\<lambda>r. f r = k) xs))"
    by (simp add: sum.distrib)
  also have "(\<Sum>k\<in>K. (if f x = k then 1 else 0 :: nat)) = 1"
    using assms(1) fx by simp
  finally show ?case using Cons by simp
qed

lemma date_trunc_minute_floor:
  "date_trunc_minute t = 60000000 * (t div 60000000)"
  unfolding date_trunc_minute_def by (simp add: minus_mod_eq_mult_div)

lemma time_data_statement_partitions:
  "sum_list (map metric_count (time_data d sid))
     = length (filter (\<lambda>m. em_session_id m = sid) (engagement_metrics d))"
  "map time_bucket (time_data d sid)
     = sort (remdups (map (\<lambda>m. 60000000 * (em_timestamp m div 60000000))
                          (filter (\<lambda>m. em_session_id m = sid) (engagement_metrics d))))"
proof -
  let ?rows = "session_metrics d sid"
  let ?f = "\<lambda>m. date_trunc_minute (em_timestamp m)"
  let ?ks = "sort (remdups (map ?f ?rows))"
  have dk: "distinct ?ks" by simp
  have "sum_list (map metric_count (time_data d sid))
        = sum_list (map (\<lambda>k. length (filter (\<lambda>m. ?f m = k) ?rows)) ?ks)"
    by (simp add: time_data_def Let_def comp_def)
  also have "\<dots> = (\<Sum>k\<in>set ?ks. length (filter (\<lambda>m. ?f m = k) ?rows))"
    using dk by (rule sum_list_distinct_conv_sum_set)
  also have "\<dots> = length ?rows"
    by (rule filter_group_sum) auto
  finally show "sum_list (map metric_count (time_data d sid))
     = length (filter (\<lambda>m. em_session_id m = sid) (engagement_metrics d))"
    by (simp add: session_metrics_def)
  show "map time_bucket (time_data d sid)
     = sort (remdups (map (\<lambda>m. 60000000 * (em_timestamp m div 60000000))
                          (filter (\<lambda>m. em_session_id m = sid) (engagement_metrics d))))"
    by (simp add: time_data_def Let_def comp_def session_metrics_def date_trunc_minute_floor)
qed

lemma time_data_db_metrics:
  "map time_bucket (time_data db_metrics 1) = [0, 60000000]
   \<and> map metric_count (time_data db_metrics 1) = [2, 1]"
  by (simp add: time_data_def session_metrics_def db_metrics_def metric_at_def
      date_trunc_minute_def sql_avg_def Let_def)

text \<open>
  C9 asks that the counts of a session's trend buckets, keyed by the minute, add up to the
  session's total recorded event count. The code departs from it: with three metric rows
  of the session in the table, the report requested by a member is answered
  \<^verbatim>\<open>REPORT_GENERATION_ERROR\<close>. The \<^verbatim>\<open>engagement_summary\<close> statement, which names
  \<^verbatim>\<open>user_id\<close>, fails before the buckets are read, and the statement that would report
  the total names \<^verbatim>\<open>user_id\<close> as well: neither the buckets nor the total are produced.
\<close>

theorem report_fails_before_trend_buckets:
  "length (session_metrics db_metrics 1) = 3
   \<and> session_report db_metrics student_a 1 = Inl REPORT_GENERATION_ERROR
   \<and> getSessionEngagementSummary db_metrics 1 = Inl (Thrown undefined_column)"
  by (simp add: session_report_def engagement_summary_query_fails
      getSessionEngagementSummary_throws session_metrics_def membership_rows_def db_metrics_def
      db_joined_def algebra_def member_def student_a_def metric_at_def)

section \<open>Joining and leaving\<close>

lemma filter_id_and_status:
  "filter (\<lambda>s. s_id s = sid \<and> status s = Active) xs
     = filter (\<lambda>s. status s = Active) (filter (\<lambda>s. s_id s = sid) xs)"
  by (induction xs) auto

lemma length_filter_conj_le:
  "length (filter (\<lambda>r. P r \<and> Q r) xs) \<le> length (filter P xs)"
  by (induction xs) auto

lemma active_le_participant_count:
  "active_participant_count d sid \<le> participant_count d sid"
  unfolding active_participant_count_def participant_count_def
  by (rule length_filter_conj_le)

lemma js_ge_mono: "js_ge n m \<Longrightarrow> n \<le> n' \<Longrightarrow> js_ge n' m"
  by (auto simp: js_ge_def split: option.splits)

lemma full_by_rows:
  assumes "js_ge (int (active_participant_count d sid)) m
           \<or> js_ge (int (participant_count d sid)) m"
  shows "js_ge (int (participant_count d sid)) m"
  using assms active_le_participant_count [of d sid] js_ge_mono by fastforce

text \<open>
  C3, as amended. When the membership rows of a session, departed members included, number
  at least \<^verbatim>\<open>max_students\<close> (as they do whenever the active participants alone do), no
  join succeeds, so no row is added; and a join by a user without a membership row into the
  session while it is active is answered \<^verbatim>\<open>SESSION_FULL\<close>. Both join routes count every
  membership row against the limit.
\<close>

theorem join_full_counts_every_row:
  assumes one: "filter (\<lambda>s. s_id s = sid) (sessions d) = [session]"
    and full: "js_ge (int (active_participant_count d sid)) (max_students session)
               \<or> js_ge (int (participant_count d sid)) (max_students session)"
  shows "(\<exists>e. join_session d now user sid = Inl e)
       \<and> (\<exists>e. join_session_second d now user sid = Inl e)
       \<and> (status session = Active \<and> membership_rows d sid (ru_id user) = []
            \<longrightarrow> join_session d now user sid = Inl SESSION_FULL
              \<and> join_session_second d now user sid = Inl SESSION_FULL)"
proof -
  have f: "js_ge (int (participant_count d sid)) (max_students session)"
    using full by (rule full_by_rows)
  have first: "filter (\<lambda>s. s_id s = sid \<and> status s = Active) (sessions d)
                 = (if status session = Active then [session] else [])"
    by (simp add: filter_id_and_status one)
  show ?thesis
    using f by (auto simp: join_session_def join_session_second_def first one)
qed

theorem join_full_counts_every_row_witness:
  "filter (\<lambda>s. s_id s = 1) (sessions db_joined) = [algebra]
   \<and> js_ge (int (active_participant_count db_joined 1)) (max_students algebra)
   \<and> status algebra = Active \<and> membership_rows db_joined 1 (ru_id student_c) = []
   \<and> join_session db_joined 500 student_c 1 = Inl SESSION_FULL
   \<and> join_session_second db_joined 500 student_c 1 = Inl SESSION_FULL"
proof -
  have one: "filter (\<lambda>s. s_id s = 1) (sessions db_joined) = [algebra]"
    by (simp add: db_joined_def algebra_def)
  have full: "js_ge (int (active_participant_count db_joined 1)) (max_students algebra)"
    by (simp add: js_ge_def active_participant_count_def db_joined_def algebra_def member_def)
  have rest: "status algebra = Active \<and> membership_rows db_joined 1 (ru_id student_c) = []"
    by (simp add: algebra_def membership_rows_def db_joined_def member_def student_c_def)
  show ?thesis
    using join_full_counts_every_row [OF one disjI1 [OF full], of 500 student_c] one full rest
    by simp
qed

text \<open>
  C3 as stated fails: departed members count against the limit. After student 2 has left,
  the session of three places has two active participants, and the next student is still
  answered \<^verbatim>\<open>SESSION_FULL\<close>.
\<close>

theorem join_limit_counts_departed_counterexample:
  "leave_session db_joined 400 student_a 1 = Inr db_left
   \<and> max_students algebra = Some 3
   \<and> active_participant_count db_left 1 = 2
   \<and> join_session db_left 500 student_c 1 = Inl SESSION_FULL
   \<and> join_session_second db_left 500 student_c 1 = Inl SESSION_FULL"
  by (simp add: leave_session_def join_session_def join_session_second_def db_joined_def db_left_def
      algebra_def member_def student_a_def student_c_def membership_rows_def js_ge_def
      participant_count_def active_participant_count_def)

lemma leave_session_rows:
  assumes "leave_session d t user sid = Inr d'"
  shows "membership_rows d' sid (ru_id user)
           = map (\<lambda>r. r\<lparr>left_at := Some t\<rparr>) (membership_rows d sid (ru_id user))"
    and "length (session_users d') = length (session_users d)"
    and "sessions d' = sessions d" and "users d' = users d"
    and "engagement_metrics d' = engagement_metrics d"
    and "membership_rows d sid (ru_id user) \<noteq> []"
proof -
  let ?f = "\<lambda>r. if su_session_id r = sid \<and> su_user_id r = ru_id user
                  then r\<lparr>left_at := Some t\<rparr> else r"
  have d': "d' = d\<lparr>session_users := map ?f (session_users d)\<rparr>"
    and ne: "membership_rows d sid (ru_id user) \<noteq> []"
    using assms by (auto simp: leave_session_def split: if_splits)
  have "filter (\<lambda>r. su_session_id r = sid \<and> su_user_id r = ru_id user) (map ?f xs)
          = map (\<lambda>r. r\<lparr>left_at := Some t\<rparr>)
              (filter (\<lambda>r. su_session_id r = sid \<and> su_user_id r = ru_id user) xs)" for xs
    by (induction xs) auto
  then show "membership_rows d' sid (ru_id user)
           = map (\<lambda>r. r\<lparr>left_at := Some t\<rparr>) (membership_rows d sid (ru_id user))"
    by (simp add: membership_rows_def d')
  show "length (session_users d') = length (session_users d)"
    "sessions d' = sessions d" "users d' = users d"
    "engagement_metrics d' = engagement_metrics d"
    by (simp_all add: d')
  show "membership_rows d sid (ru_id user) \<noteq> []" by (rule ne)
qed

lemma join_with_row:
  assumes "membership_rows d sid (ru_id user) \<noteq> []"
  shows "(\<exists>e. join_session d now user sid = Inl e)
       \<and> (\<exists>e. join_session_second d now user sid = Inl e)
       \<and> (filter (\<lambda>s. s_id s = sid \<and> status s = Active) (sessions d) \<noteq> []
            \<longrightarrow> join_session d now user sid = Inl USER_ALREADY_IN_SESSION)
       \<and> ((\<exists>session rest. filter (\<lambda>s. s_id s = sid) (sessions d) = session # rest
                            \<and> status session = Active)
            \<longrightarrow> join_session_second d now user sid = Inl USER_ALREADY_IN_SESSION)"
  using assms
  by (auto simp: join_session_def join_session_second_def split: list.splits)

lemma join_without_active_session:
  "(filter (\<lambda>s. s_id s = sid \<and> status s = Active) (sessions d) = []
      \<longrightarrow> join_session d now user sid = Inl SESSION_NOT_FOUND)
   \<and> (filter (\<lambda>s. s_id s = sid) (sessions d) = []
      \<longrightarrow> join_session_second d now user sid = Inl SESSION_NOT_FOUND)
   \<and> ((\<exists>session rest. filter (\<lambda>s. s_id s = sid) (sessions d) = session # rest
                        \<and> status session \<noteq> Active)
      \<longrightarrow> join_session_second d now user sid = Inl SESSION_NOT_ACTIVE)"
  by (auto simp: join_session_def join_session_second_def)

text \<open>
  C10, as amended. A user who has a membership row for a session, whether \<^verbatim>\<open>left_at\<close> is
  set or not, cannot join it again: no join succeeds. The answer is
  \<^verbatim>\<open>USER_ALREADY_IN_SESSION\<close> when the session is active; when it is not, the session
  lookup, which comes first, answers \<^verbatim>\<open>SESSION_NOT_FOUND\<close> (in the second route
  \<^verbatim>\<open>SESSION_NOT_FOUND\<close> for a missing and \<^verbatim>\<open>SESSION_NOT_ACTIVE\<close> for an ended or
  cancelled session). Leaving succeeds for such a user, deletes no row and only stamps
  \<^verbatim>\<open>left_at\<close>, so a join after leaving is rejected in the same way and never
  reactivates the membership.
\<close>

theorem rejoin_rejected_as_already_member:
  assumes "membership_rows d sid (ru_id user) \<noteq> []"
  shows "(\<exists>e. join_session d now user sid = Inl e)
       \<and> (\<exists>e. join_session_second d now user sid = Inl e)
       \<and> (filter (\<lambda>s. s_id s = sid \<and> status s = Active) (sessions d) \<noteq> []
            \<longrightarrow> join_session d now user sid = Inl USER_ALREADY_IN_SESSION)
       \<and> ((\<exists>session rest. filter (\<lambda>s. s_id s = sid) (sessions d) = session # rest
                            \<and> status session = Active)
            \<longrightarrow> join_session_second d now user sid = Inl USER_ALREADY_IN_SESSION)
       \<and> (filter (\<lambda>s. s_id s = sid \<and> status s = Active) (sessions d) = []
            \<longrightarrow> join_session d now user sid = Inl SESSION_NOT_FOUND)
       \<and> (filter (\<lambda>s. s_id s = sid) (sessions d) = []
            \<longrightarrow> join_session_second d now user sid = Inl SESSION_NOT_FOUND)
       \<and> ((\<exists>session rest. filter (\<lambda>s. s_id s = sid) (sessions d) = session # rest
                            \<and> status session \<noteq> Active)
            \<longrightarrow> join_session_second d now user sid = Inl SESSION_NOT_ACTIVE)
       \<and> (\<exists>d'. leave_session d t user sid = Inr d'
              \<and> length (session_users d') = length (session_users d)
              \<and> membership_rows d' sid (ru_id user)
                  = map (\<lambda>r. r\<lparr>left_at := Some t\<rparr>) (membership_rows d sid (ru_id user))
              \<and> membership_rows d' sid (ru_id user) \<noteq> []
              \<and> (\<exists>e. join_session d' now user sid = Inl e)
              \<and> (\<exists>e. join_session_second d' now user sid = Inl e)
              \<and> (filter (\<lambda>s. s_id s = sid \<and> status s = Active) (sessions d) \<noteq> []
                   \<longrightarrow> join_session d' now user sid = Inl USER_ALREADY_IN_SESSION)
              \<and> ((\<exists>session rest. filter (\<lambda>s. s_id s = sid) (sessions d) = session # rest
                                   \<and> status session = Active)
                   \<longrightarrow> join_session_second d' now user sid = Inl USER_ALREADY_IN_SESSION))"
proof -
  obtain d' where l: "leave_session d t user sid = Inr d'"
    using assms by (auto simp: leave_session_def)
  note r = leave_session_rows [OF l]
  have ne: "membership_rows d' sid (ru_id user) \<noteq> []"
    using assms by (simp add: r(1))
  have leave: "\<exists>d'. leave_session d t user sid = Inr d'
              \<and> length (session_users d') = length (session_users d)
              \<and> membership_rows d' sid (ru_id user)
                  = map (\<lambda>r. r\<lparr>left_at := Some t\<rparr>) (membership_rows d sid (ru_id user))
              \<and> membership_rows d' sid (ru_id user) \<noteq> []
              \<and> (\<exists>e. join_session d' now user sid = Inl e)
              \<and> (\<exists>e. join_session_second d' now user sid = Inl e)
              \<and> (filter (\<lambda>s. s_id s = sid \<and> status s = Active) (sessions d) \<noteq> []
                   \<longrightarrow> join_session d' now user sid = Inl USER_ALREADY_IN_SESSION)
              \<and> ((\<exists>session rest. filter (\<lambda>s. s_id s = sid) (sessions d) = session # rest
                                   \<and> status session = Active)
                   \<longrightarrow> join_session_second d' now user sid = Inl USER_ALREADY_IN_SESSION)"
    using join_with_row [OF ne, of now] l r(1,2) ne
    by (simp add: r(3))
  show ?thesis
    using join_with_row [OF assms, of now] join_without_active_session [of sid d now user] leave
    by blast
qed

theorem rejoin_rejected_as_already_member_witness:
  "membership_rows db_joined 1 (ru_id student_a) \<noteq> []
   \<and> join_session db_joined 500 student_a 1 = Inl USER_ALREADY_IN_SESSION
   \<and> leave_session db_joined 400 student_a 1 = Inr db_left
   \<and> membership_rows db_left 1 (ru_id student_a) = [member 2 MemberStudent 200 (Some 400)]
   \<and> join_session db_left 500 student_a 1 = Inl USER_ALREADY_IN_SESSION
   \<and> join_session_second db_left 500 student_a 1 = Inl USER_ALREADY_IN_SESSION"
proof -
  have row: "membership_rows db_joined 1 (ru_id student_a) \<noteq> []"
    by (simp add: membership_rows_def db_joined_def member_def student_a_def)
  have l: "leave_session db_joined 400 student_a 1 = Inr db_left"
    by (rule db_left_reached)
  have act: "filter (\<lambda>s. s_id s = 1 \<and> status s = Active) (sessions db_joined) \<noteq> []"
    "\<exists>session rest. filter (\<lambda>s. s_id s = 1) (sessions db_joined) = session # rest
                            \<and> status session = Active"
    by (simp_all add: db_joined_def algebra_def)
  have rows: "membership_rows db_left 1 (ru_id student_a) = [member 2 MemberStudent 200 (Some 400)]"
    by (simp add: membership_rows_def db_left_def member_def student_a_def)
  show ?thesis
    using rejoin_rejected_as_already_member [OF row, of 500 400] act row l rows
    by auto
qed

text \<open>
  C10 as stated fails: student 2 has a membership row of the session, the session has been
  ended, and the join is answered \<^verbatim>\<open>SESSION_NOT_FOUND\<close> (in the second route
  \<^verbatim>\<open>SESSION_NOT_ACTIVE\<close>), not \<^verbatim>\<open>USER_ALREADY_IN_SESSION\<close>.
\<close>

theorem rejoin_ended_session_counterexample:
  "membership_rows db_ended 1 (ru_id student_a) = [member 2 MemberStudent 200 None]
   \<and> status (hd (sessions db_ended)) = Ended
   \<and> join_session db_ended 950 student_a 1 = Inl SESSION_NOT_FOUND
   \<and> join_session_second db_ended 950 student_a 1 = Inl SESSION_NOT_ACTIVE"
  by (simp add: join_session_def join_session_second_def membership_rows_def db_ended_def
      db_joined_def algebra_def member_def student_a_def)

lemma insert_ignores_membership:
  "insert_engagement_metric (d\<lparr>session_users := rows\<rparr>) names m
     = map_sum id (\<lambda>x. x\<lparr>session_users := rows\<rparr>) (insert_engagement_metric d names m)"
  by (simp add: insert_engagement_metric_def split: sum.splits)

lemma store_ignores_membership:
  "storeEngagementMetric (d\<lparr>session_users := rows\<rparr>) now sid uid emo c s
     = map_sum id (\<lambda>x. x\<lparr>session_users := rows\<rparr>) (storeEngagementMetric d now sid uid emo c s)"
  unfolding storeEngagementMetric_def insert_ignores_membership
  by (simp split: sum.splits)

lemma store_error_kind:
  "storeEngagementMetric d now sid uid emo c s = Inl e \<Longrightarrow> \<exists>p. e = Thrown p"
  by (auto simp: storeEngagementMetric_def split: sum.splits)

text \<open>
  C4, as amended. Ingestion does not consult the membership table: the outcome of a
  metric submission is the same whatever rows that table holds, so a submission for a
  student right after the student has left a session has the outcome of the same
  submission before leaving, and that outcome is never the membership error
  \<^verbatim>\<open>USER_NOT_IN_SESSION\<close>.
\<close>

theorem ingestion_ignores_membership:
  "storeEngagementMetric (d\<lparr>session_users := rows\<rparr>) now sid uid emo c s
     = map_sum id (\<lambda>x. x\<lparr>session_users := rows\<rparr>) (storeEngagementMetric d now sid uid emo c s)
   \<and> storeEngagementMetric d now sid uid emo c s \<noteq> Inl USER_NOT_IN_SESSION
   \<and> (leave_session d t user sid = Inr d'
        \<longrightarrow> storeEngagementMetric d' now sid (ru_id user) emo c s
            = map_sum id (\<lambda>x. x\<lparr>session_users := session_users d'\<rparr>)
                (storeEngagementMetric d now sid (ru_id user) emo c s))"
proof -
  have "storeEngagementMetric d' now sid (ru_id user) emo c s
            = map_sum id (\<lambda>x. x\<lparr>session_users := session_users d'\<rparr>)
                (storeEngagementMetric d now sid (ru_id user) emo c s)"
    if l: "leave_session d t user sid = Inr d'"
  proof -
    have "d' = d\<lparr>session_users := session_users d'\<rparr>"
      using l by (auto simp: leave_session_def split: if_splits)
    then show ?thesis
      using store_ignores_membership
        [where d = d and rows = "session_users d'" and now = now and sid = sid
           and uid = "ru_id user" and emo = emo and c = c and s = s]
      by simp
  qed
  moreover have "storeEngagementMetric d now sid uid emo c s \<noteq> Inl USER_NOT_IN_SESSION"
    using store_error_kind [of d now sid uid emo c s USER_NOT_IN_SESSION] by auto
  ultimately show ?thesis
    using store_ignores_membership
      [where d = d and rows = rows and now = now and sid = sid and uid = uid and emo = emo
         and c = c and s = s]
    by blast
qed

theorem ingestion_ignores_membership_witness:
  "leave_session db_joined 400 student_a 1 = Inr db_left
   \<and> storeEngagementMetric db_left 500 1 (ru_id student_a) ''happy'' (9/10) (4/5)
       = map_sum id (\<lambda>x. x\<lparr>session_users := session_users db_left\<rparr>)
           (storeEngagementMetric db_joined 500 1 (ru_id student_a) ''happy'' (9/10) (4/5))"
  using ingestion_ignores_membership
    [where d = db_joined and t = 400 and user = student_a and sid = 1 and d' = db_left
       and now = 500 and emo = "''happy''" and c = "9/10" and s = "4/5"]
    db_left_reached
  by simp

text \<open>
  C4 as stated fails: student 2 leaves, and the metric submitted next for student 2 is not
  rejected as a non-member. The store method throws \<^verbatim>\<open>undefined_column\<close>, as it does
  for the same submission before the student left.
\<close>

theorem metric_after_leave_counterexample:
  "leave_session db_joined 400 student_a 1 = Inr db_left
   \<and> storeEngagementMetric db_left 500 1 2 ''happy'' (9/10) (4/5)
       = Inl (Thrown undefined_column)
   \<and> storeEngagementMetric db_joined 300 1 2 ''happy'' (9/10) (4/5)
       = Inl (Thrown undefined_column)
   \<and> Thrown undefined_column \<noteq> USER_NOT_IN_SESSION"
  using db_left_reached by (simp add: storeEngagementMetric_throws)

section \<open>Ending a session and the session lifecycle\<close>

lemma end_session_success:
  assumes "requireRole [Teacher, Admin] user"
    and "filter (\<lambda>s. s_id s = sid) (sessions d) = session # rest"
    and "teacher_id session = ru_id user" and "status session \<noteq> Ended"
  shows "end_session d now user sid
           = Inr (d\<lparr>sessions :=
                    map (\<lambda>s. if s_id s = sid then s\<lparr>status := Ended, end_time := Some now\<rparr>
                              else s) (sessions d)\<rparr>)"
  using assms by (simp add: end_session_def)

text \<open>
  C6, as amended. For an existing session, ending it is refused with a 403 answer when the
  caller is not a teacher or admin (\<^verbatim>\<open>INSUFFICIENT_PERMISSIONS\<close>) or is not the session's
  teacher (\<^verbatim>\<open>END_PERMISSION_DENIED\<close>); for the session's teacher it is refused with
  \<^verbatim>\<open>SESSION_ALREADY_ENDED\<close> exactly when the status is ended, and otherwise, for an active
  and for a cancelled session alike, it succeeds, sets the status to ended and
  \<^verbatim>\<open>end_time\<close> to the current time, and changes nothing else.
\<close>

theorem end_session_outcomes:
  assumes one: "filter (\<lambda>s. s_id s = sid) (sessions d) = session # rest"
  shows "(\<not> requireRole [Teacher, Admin] user
            \<longrightarrow> end_session d now user sid = Inl INSUFFICIENT_PERMISSIONS)
       \<and> (requireRole [Teacher, Admin] user \<and> teacher_id session \<noteq> ru_id user
            \<longrightarrow> end_session d now user sid = Inl END_PERMISSION_DENIED)
       \<and> (requireRole [Teacher, Admin] user \<and> teacher_id session = ru_id user
            \<and> status session = Ended
            \<longrightarrow> end_session d now user sid = Inl SESSION_ALREADY_ENDED)
       \<and> (requireRole [Teacher, Admin] user \<and> teacher_id session = ru_id user
            \<and> status session \<noteq> Ended
            \<longrightarrow> (\<exists>d'. end_session d now user sid = Inr d'
                   \<and> length (sessions d') = length (sessions d)
                   \<and> (\<forall>i < length (sessions d).
                        sessions d' ! i =
                          (if s_id (sessions d ! i) = sid
                           then (sessions d ! i)\<lparr>status := Ended, end_time := Some now\<rparr>
                           else sessions d ! i))
                   \<and> users d' = users d \<and> session_users d' = session_users d
                   \<and> engagement_metrics d' = engagement_metrics d))"
  using one by (auto simp: end_session_def)

theorem end_session_outcomes_witness:
  "filter (\<lambda>s. s_id s = 1) (sessions db_joined) = [algebra]
   \<and> requireRole [Teacher, Admin] teacher_user \<and> teacher_id algebra = ru_id teacher_user
   \<and> status algebra \<noteq> Ended
   \<and> end_session db_joined 900 teacher_user 1 = Inr db_ended
   \<and> end_session db_joined 900 student_a 1 = Inl INSUFFICIENT_PERMISSIONS"
proof -
  have one: "filter (\<lambda>s. s_id s = 1) (sessions db_joined) = [algebra]"
    by (simp add: db_joined_def algebra_def)
  have h: "requireRole [Teacher, Admin] teacher_user \<and> teacher_id algebra = ru_id teacher_user
           \<and> status algebra \<noteq> Ended"
    "\<not> requireRole [Teacher, Admin] student_a"
    by (simp_all add: requireRole_def teacher_user_def student_a_def algebra_def)
  have e: "end_session db_joined 900 teacher_user 1 = Inr db_ended"
    by (simp add: end_session_def requireRole_def teacher_user_def db_joined_def db_ended_def
        algebra_def)
  show ?thesis
    using end_session_outcomes [OF one, of student_a 900] one h e by simp
qed

text \<open>
  C6 as stated fails: a cancelled session is not active, yet its teacher can end it; the
  answer is not \<^verbatim>\<open>SESSION_ALREADY_ENDED\<close> and the status goes from cancelled to ended.
\<close>

theorem end_cancelled_session_counterexample:
  "status (hd (sessions db_cancelled)) = Cancelled
   \<and> end_session db_cancelled 900 teacher_user 1 = Inr db_ended
   \<and> end_session db_cancelled 900 teacher_user 1 \<noteq> Inl SESSION_ALREADY_ENDED"
  by (simp add: end_session_def requireRole_def teacher_user_def db_joined_def db_ended_def
      db_cancelled_def algebra_def)

lemma keep_cases: "keep d r = d \<or> r = Inr (keep d r)"
  by (cases r) (simp_all add: keep_def)

lemma join_sessions_same:
  "join_session d now user sid = Inr d' \<Longrightarrow> sessions d' = sessions d"
  by (auto simp: join_session_def insert_session_user_def split: list.splits if_splits sum.splits option.splits user_role.splits)

lemma leave_sessions_same:
  "leave_session d now user sid = Inr d' \<Longrightarrow> sessions d' = sessions d"
  by (auto simp: leave_session_def split: if_splits)

lemma end_sessions_map:
  assumes "end_session d now user sid = Inr d'"
  shows "sessions d' = map (\<lambda>s. if s_id s = sid then s\<lparr>status := Ended, end_time := Some now\<rparr>
                                  else s) (sessions d)"
  using assms by (auto simp: end_session_def split: if_splits list.splits)

lemma metric_sessions_same:
  "engagement_update d now data = Inr d' \<Longrightarrow> sessions d' = sessions d"
  by (auto simp: engagement_update_def storeEngagementMetric_def insert_engagement_metric_def
      split: sum.splits if_splits)

lemma step_sessions:
  "sessions (step d now op) = sessions d
   \<or> (\<exists>sid. sessions (step d now op)
              = map (\<lambda>s. if s_id s = sid then s\<lparr>status := Ended, end_time := Some now\<rparr> else s)
                    (sessions d))"
proof (cases op)
  case (Join user sid)
  then show ?thesis
    using keep_cases [of d "join_session d now user sid"] join_sessions_same by auto
next
  case (Leave user sid)
  then show ?thesis
    using keep_cases [of d "leave_session d now user sid"] leave_sessions_same by auto
next
  case (End user sid)
  then show ?thesis
    using keep_cases [of d "end_session d now user sid"] end_sessions_map by auto
next
  case (Metric data)
  then show ?thesis
    using keep_cases [of d "engagement_update d now data"] metric_sessions_same by auto
qed

text \<open>
  C7, as amended. A join, a leave, an end request and a metric submission keep the
  sessions table row by row, except that a row may be set to status ended with
  \<^verbatim>\<open>end_time\<close> the current time: no such step makes a session active or cancelled, an
  ended session stays ended, and "an ended session has its \<^verbatim>\<open>end_time\<close> set" and
  "a session that is not active has its \<^verbatim>\<open>end_time\<close> set" are preserved. That \<^verbatim>\<open>end_time\<close> is set only for sessions that are not active is not an
  invariant, and the update route is not bound to these transitions.
\<close>

theorem lifecycle_step:
  "length (sessions (step d now op)) = length (sessions d)
   \<and> (\<forall>i < length (sessions d).
         sessions (step d now op) ! i = sessions d ! i
         \<or> sessions (step d now op) ! i = (sessions d ! i)\<lparr>status := Ended, end_time := Some now\<rparr>)
   \<and> ((\<forall>s \<in> set (sessions d). status s = Ended \<longrightarrow> end_time s \<noteq> None)
        \<longrightarrow> (\<forall>s \<in> set (sessions (step d now op)). status s = Ended \<longrightarrow> end_time s \<noteq> None))
   \<and> ((\<forall>s \<in> set (sessions d). status s \<noteq> Active \<longrightarrow> end_time s \<noteq> None)
        \<longrightarrow> (\<forall>s \<in> set (sessions (step d now op)).
               status s \<noteq> Active \<longrightarrow> end_time s \<noteq> None))"
proof -
  have len: "length (sessions (step d now op)) = length (sessions d)"
    using step_sessions [of d now op] by auto
  have pt: "\<forall>i < length (sessions d).
         sessions (step d now op) ! i = sessions d ! i
         \<or> sessions (step d now op) ! i = (sessions d ! i)\<lparr>status := Ended, end_time := Some now\<rparr>"
    using step_sessions [of d now op] by auto
  have inv: "\<forall>s \<in> set (sessions (step d now op)). status s = Ended \<longrightarrow> end_time s \<noteq> None"
    if h: "\<forall>s \<in> set (sessions d). status s = Ended \<longrightarrow> end_time s \<noteq> None"
  proof
    fix s assume "s \<in> set (sessions (step d now op))"
    then obtain i where i: "i < length (sessions d)" "s = sessions (step d now op) ! i"
      using len by (metis in_set_conv_nth)
    then have "s = sessions d ! i \<or> s = (sessions d ! i)\<lparr>status := Ended, end_time := Some now\<rparr>"
      using pt by simp
    moreover have "sessions d ! i \<in> set (sessions d)" using i(1) by simp
    ultimately show "status s = Ended \<longrightarrow> end_time s \<noteq> None"
      using h by auto
  qed
  have inv2: "\<forall>s \<in> set (sessions (step d now op)). status s \<noteq> Active \<longrightarrow> end_time s \<noteq> None"
    if h: "\<forall>s \<in> set (sessions d). status s \<noteq> Active \<longrightarrow> end_time s \<noteq> None"
  proof
    fix s assume "s \<in> set (sessions (step d now op))"
    then obtain i where i: "i < length (sessions d)" "s = sessions (step d now op) ! i"
      using len by (metis in_set_conv_nth)
    then have "s = sessions d ! i \<or> s = (sessions d ! i)\<lparr>status := Ended, end_time := Some now\<rparr>"
      using pt by simp
    moreover have "sessions d ! i \<in> set (sessions d)" using i(1) by simp
    ultimately show "status s \<noteq> Active \<longrightarrow> end_time s \<noteq> None"
      using h by auto
  qed
  from len pt inv inv2 show ?thesis by blast
qed

theorem lifecycle_step_witness:
  "step db_joined 900 (End teacher_user 1) = db_ended
   \<and> length (sessions db_ended) = length (sessions db_joined)
   \<and> sessions db_ended ! 0 = (sessions db_joined ! 0)\<lparr>status := Ended, end_time := Some 900\<rparr>"
proof -
  have e: "step db_joined 900 (End teacher_user 1) = db_ended"
    by (simp add: keep_def end_session_def requireRole_def teacher_user_def db_joined_def
        db_ended_def algebra_def)
  show ?thesis
    using lifecycle_step [of db_joined 900 "End teacher_user 1"] e
    by (simp add: db_joined_def db_ended_def)
qed

text \<open>
  C7 as stated fails. Creating a session stores the scheduled \<^verbatim>\<open>end_time\<close> on an active
  session; the update route sets an ended session back to active;
  \<^verbatim>\<open>SessionManager.endSession\<close> sets \<^verbatim>\<open>end_time\<close> and leaves the session active.
\<close>

theorem session_invariant_counterexample:
  "create_session db_empty 100 teacher_user algebra_body = (db_created, Inr algebra)
   \<and> status algebra = Active \<and> end_time algebra = Some 3600000000
   \<and> status (hd (sessions db_ended)) = Ended
   \<and> update_session db_ended teacher_user 1 reopen_body
       = Inr (db_ended\<lparr>sessions := [algebra\<lparr>end_time := Some 900\<rparr>]\<rparr>)
   \<and> status (algebra\<lparr>end_time := Some 900\<rparr>) = Active
   \<and> status (hd (sessions (endSession db_created 700 1))) = Active
   \<and> end_time (hd (sessions (endSession db_created 700 1))) = Some 700"
proof -
  have u: "update_session db_ended teacher_user 1 reopen_body
             = Inr (db_ended\<lparr>sessions := [algebra\<lparr>end_time := Some 900\<rparr>]\<rparr>)"
    by (simp add: update_session_def requireRole_def teacher_user_def db_ended_def db_joined_def
        algebra_def reopen_body_def status_of_text_def apply_update_def update_refused_def)
  have c: "status algebra = Active \<and> end_time algebra = Some 3600000000
           \<and> status (hd (sessions db_ended)) = Ended
           \<and> status (algebra\<lparr>end_time := Some 900\<rparr>) = Active"
    by (simp add: algebra_def db_ended_def)
  have m: "status (hd (sessions (endSession db_created 700 1))) = Active
           \<and> end_time (hd (sessions (endSession db_created 700 1))) = Some 700"
    by (simp add: endSession_def db_created_def algebra_def)
  show ?thesis
    using db_created_reached u c m by simp
qed

section \<open>Report for a session that does not exist\<close>




section \<open>Alerts of the class overview\<close>

lemma alert_texts_distinct:
  "confusion_alert \<noteq> boredom_alert" "confusion_alert \<noteq> low_engagement_alert"
  "boredom_alert \<noteq> low_engagement_alert"
  by (simp_all add: confusion_alert_def boredom_alert_def low_engagement_alert_def)

lemma generate_alerts_mem:
  "(confusion_alert \<in> set (generate_alerts dis avg) \<longleftrightarrow> 20 < confused dis)
   \<and> (boredom_alert \<in> set (generate_alerts dis avg) \<longleftrightarrow> 30 < bored dis)
   \<and> (low_engagement_alert \<in> set (generate_alerts dis avg) \<longleftrightarrow> js_lt avg 60)"
  using alert_texts_distinct by (auto simp: generate_alerts_def)

text \<open>
  C1, as amended. In every class overview the confusion alert is emitted exactly when more
  than 20 metrics of the last five minutes (of sessions with no \<^verbatim>\<open>end_time\<close>) carry the
  emotion confused, the boredom alert exactly when more than 30 carry bored, and the
  low-engagement alert exactly when the average engagement score of those metrics is below
  60 or there is no such metric. The thresholds are compared with numbers of metrics, not
  with shares of the students: the number of students is reported and not used. With
  three of those metrics confused, or with one, there is no confusion alert.
\<close>

theorem alerts_compare_event_counts:
  assumes "class_overview d now user = Inr ov"
  shows "(confusion_alert \<in> set (alerts ov)
            \<longleftrightarrow> 20 < count_emotion ''confused'' (recent_metrics d now))
       \<and> (boredom_alert \<in> set (alerts ov)
            \<longleftrightarrow> 30 < count_emotion ''bored'' (recent_metrics d now))
       \<and> (low_engagement_alert \<in> set (alerts ov)
            \<longleftrightarrow> (case sql_avg (map engagement_score (recent_metrics d now)) of
                   None \<Rightarrow> True | Some a \<Rightarrow> a < 60))
       \<and> totalStudents ov = total_students d
       \<and> (count_emotion ''confused'' (recent_metrics d now) = 3
            \<longrightarrow> confusion_alert \<notin> set (alerts ov))
       \<and> (count_emotion ''confused'' (recent_metrics d now) = 1
            \<longrightarrow> confusion_alert \<notin> set (alerts ov))"
proof -
  have ov: "ov = \<lparr>totalStudents = total_students d,
                onlineStudents = length (remdups (map em_student_id (recent_metrics d now))),
                averageEngagement =
                  (case sql_avg (map engagement_score (recent_metrics d now)) of
                     None \<Rightarrow> 0 | Some a \<Rightarrow> \<lfloor>a + 1 / 2\<rfloor>),
                emotionDistribution =
                  \<lparr>attentive = count_emotion ''attentive'' (recent_metrics d now),
                   confused = count_emotion ''confused'' (recent_metrics d now),
                   bored = count_emotion ''bored'' (recent_metrics d now),
                   neutral = count_emotion ''neutral'' (recent_metrics d now),
                   happy = count_emotion ''happy'' (recent_metrics d now)\<rparr>,
                alerts = generate_alerts
                  \<lparr>attentive = count_emotion ''attentive'' (recent_metrics d now),
                   confused = count_emotion ''confused'' (recent_metrics d now),
                   bored = count_emotion ''bored'' (recent_metrics d now),
                   neutral = count_emotion ''neutral'' (recent_metrics d now),
                   happy = count_emotion ''happy'' (recent_metrics d now)\<rparr>
                  (sql_avg (map engagement_score (recent_metrics d now)))\<rparr>"
    using assms by (simp add: class_overview_def Let_def split: if_splits)
  show ?thesis
    unfolding ov using generate_alerts_mem
    by (simp add: js_lt_def split: option.splits)
qed

lemma overview_three_confused:
  "class_overview (db_class three_confused) 1000000000 teacher_user
     = Inr \<lparr>totalStudents = 10, onlineStudents = 10, averageEngagement = 1,
            emotionDistribution = \<lparr>attentive = 7, confused = 3, bored = 0, neutral = 0, happy = 0\<rparr>,
            alerts = [low_engagement_alert]\<rparr>"
  by code_simp


lemma overview_one_student_confused:
  "class_overview (db_class one_student_confused) 1000000000 teacher_user
     = Inr \<lparr>totalStudents = 10, onlineStudents = 1, averageEngagement = 1,
            emotionDistribution = \<lparr>attentive = 0, confused = 21, bored = 0, neutral = 0, happy = 0\<rparr>,
            alerts = [confusion_alert, low_engagement_alert]\<rparr>"
  by code_simp

lemma overview_one_confused:
  "class_overview (db_class one_confused) 1000000000 teacher_user
     = Inr \<lparr>totalStudents = 10, onlineStudents = 10, averageEngagement = 1,
            emotionDistribution = \<lparr>attentive = 9, confused = 1, bored = 0, neutral = 0, happy = 0\<rparr>,
            alerts = [low_engagement_alert]\<rparr>"
  by code_simp

theorem alerts_compare_event_counts_witness:
  "class_overview (db_class one_student_confused) 1000000000 teacher_user
     = Inr \<lparr>totalStudents = 10, onlineStudents = 1, averageEngagement = 1,
            emotionDistribution = \<lparr>attentive = 0, confused = 21, bored = 0, neutral = 0, happy = 0\<rparr>,
            alerts = [confusion_alert, low_engagement_alert]\<rparr>
   \<and> 20 < count_emotion ''confused'' (recent_metrics (db_class one_student_confused) 1000000000)
   \<and> total_students (db_class one_student_confused) = 10"
  using alerts_compare_event_counts [OF overview_one_student_confused]
    overview_one_student_confused
  by simp

text \<open>
  C1 as stated fails: in a class of ten students of whom three report confused, once each,
  30 percent of the class, the overview carries no confusion alert.
\<close>

theorem confusion_share_counterexample:
  "class_overview (db_class three_confused) 1000000000 teacher_user
     = Inr \<lparr>totalStudents = 10, onlineStudents = 10, averageEngagement = 1,
            emotionDistribution = \<lparr>attentive = 7, confused = 3, bored = 0, neutral = 0, happy = 0\<rparr>,
            alerts = [low_engagement_alert]\<rparr>
   \<and> confusion_alert \<notin> set [low_engagement_alert]"
  using overview_three_confused alert_texts_distinct(2) by simp

end
